theory Spec2Isabelle
  imports Main
begin

section \<open>JavaScript values used by the roadmap page\<close>

text \<open>
  The page is \<^verbatim>\<open>frontend/src/app/roadmap/page.tsx\<close>; the HTTP client is the module it
  imports as \<^verbatim>\<open>@/lib/api\<close>. Week numbers, durations and percentages are JavaScript
  numbers that hold integers here, so they are modelled as \<open>int\<close>; the one place where
  the page can produce \<open>NaN\<close> is \<^verbatim>\<open>parseInt\<close>, whose result type is \<open>jsnum\<close>.
\<close>

datatype jsnum = NaN | Num int

datatype jsval = JUndefined | JString string | JNumber jsnum

type_synonym jsobject = "(string \<times> jsval) list"

text \<open>\<^verbatim>\<open>x || d\<close> on an optional number: \<open>undefined\<close> and \<open>0\<close> are falsy.\<close>

definition num_or :: "int option \<Rightarrow> int \<Rightarrow> int" where
  "num_or x d = (case x of None \<Rightarrow> d | Some v \<Rightarrow> if v = 0 then d else v)"

text \<open>\<^verbatim>\<open>s || d\<close> on an optional string: \<open>undefined\<close> and the empty string are falsy.\<close>

definition str_or :: "string option \<Rightarrow> string \<Rightarrow> string" where
  "str_or x d = (case x of None \<Rightarrow> d | Some v \<Rightarrow> if v = [] then d else v)"

subsection \<open>\<^verbatim>\<open>parseInt\<close> with no radix argument\<close>

text \<open>
  Leading white space is skipped (its ASCII characters), then an optional sign, then an
  optional \<^verbatim>\<open>0x\<close> that selects radix 16; the longest run of digits of the radix is the
  value, and an empty run gives \<open>NaN\<close>.
\<close>

definition is_ws :: "char \<Rightarrow> bool" where
  "is_ws c = ((of_char c :: nat) \<in> {9, 10, 11, 12, 13, 32})"

definition digit_val :: "char \<Rightarrow> nat option" where
  "digit_val c =
     (let n = (of_char c :: nat) in
      if 48 \<le> n \<and> n \<le> 57 then Some (n - 48)
      else if 97 \<le> n \<and> n \<le> 122 then Some (n - 87)
      else if 65 \<le> n \<and> n \<le> 90 then Some (n - 55)
      else None)"

definition is_digit_in :: "nat \<Rightarrow> char \<Rightarrow> bool" where
  "is_digit_in R c = (case digit_val c of None \<Rightarrow> False | Some d \<Rightarrow> d < R)"

definition digits_value :: "nat \<Rightarrow> string \<Rightarrow> int" where
  "digits_value R ds =
     foldl (\<lambda>acc c. case digit_val c of None \<Rightarrow> acc | Some d \<Rightarrow> acc * int R + int d) 0 ds"

definition parse_digits :: "nat \<Rightarrow> string \<Rightarrow> int option" where
  "parse_digits R s =
     (let ds = takeWhile (is_digit_in R) s in
      if ds = [] then None else Some (digits_value R ds))"

fun parse_unsigned :: "string \<Rightarrow> int option" where
  "parse_unsigned (a # b # rest) =
     (if a = CHR ''0'' \<and> (b = CHR ''x'' \<or> b = CHR ''X'')
      then parse_digits 16 rest else parse_digits 10 (a # b # rest))"
| "parse_unsigned s = parse_digits 10 s"

fun parse_signed :: "string \<Rightarrow> int option" where
  "parse_signed (c # rest) =
     (if c = CHR ''-'' then map_option uminus (parse_unsigned rest)
      else if c = CHR ''+'' then parse_unsigned rest
      else parse_unsigned (c # rest))"
| "parse_signed [] = None"

definition parseInt :: "string \<Rightarrow> jsnum" where
  "parseInt s = (case parse_signed (dropWhile is_ws s) of None \<Rightarrow> NaN | Some n \<Rightarrow> Num n)"

section \<open>Data model\<close>

text \<open>The interfaces \<^verbatim>\<open>Task\<close>, \<^verbatim>\<open>DayPlan\<close>, \<^verbatim>\<open>WeekPlan\<close> and \<^verbatim>\<open>Roadmap\<close> of the page.\<close>

record Task =
  task_id :: string
  title :: string
  description :: string
  resource_type :: string
  resource_url :: "string option"
  duration_minutes :: int
  completed :: bool

record DayPlan =
  day :: int
  date :: string
  tasks :: "Task list"
  focus_area :: string

record WeekPlan =
  week :: int
  theme :: string
  days :: "DayPlan list"
  milestone :: string

text \<open>
  A roadmap arrives as the JSON body of a response. The page reads \<^verbatim>\<open>current_week\<close> and
  \<^verbatim>\<open>progress\<close> through \<^verbatim>\<open>||\<close> defaults, so these two fields may be absent (\<open>None\<close>).
\<close>

record Roadmap =
  roadmap_id :: string
  student_id :: string
  target_company :: "string option"
  target_role :: "string option"
  duration_weeks :: int
  current_week :: "int option"
  progress :: "int option"
  weeks :: "WeekPlan list"
  created_at :: string

text \<open>
  The store's \<^verbatim>\<open>User\<close> (\<^verbatim>\<open>lib/store.ts\<close>). Field names that several interfaces
  share are written with the record's name in front: \<open>Roadmap.student_id\<close>,
  \<open>User.student_id\<close>, \<open>GenerationParams.duration_weeks\<close>.
\<close>

record User =
  student_id :: string
  name :: string
  email :: string
  readiness_score :: int
  skills :: "string list"
  communication :: string

text \<open>The object held by \<^verbatim>\<open>useState\<close> for the generation form.\<close>

record GenerationParams =
  duration_weeks :: jsnum
  daily_commitment :: string
  target_company :: string
  target_role :: string

record page_state =
  user :: "User option"
  roadmap :: "Roadmap option"
  currentWeek :: int
  todaysTasks :: "Task list"
  isLoading :: bool
  isGenerating :: bool
  generationParams :: GenerationParams

definition initial_params :: GenerationParams where
  "initial_params =
     \<lparr>duration_weeks = Num 12, daily_commitment = ''2 hours'',
      target_company = '''', target_role = ''''\<rparr>"

definition initial_state :: "User option \<Rightarrow> page_state" where
  "initial_state u =
     \<lparr>user = u, roadmap = None, currentWeek = 1, todaysTasks = [],
      isLoading = True, isGenerating = False, generationParams = initial_params\<rparr>"

section \<open>The HTTP client (\<^verbatim>\<open>roadmapAPI\<close>)\<close>

text \<open>A request is the call made on the axios instance: \<^verbatim>\<open>api.get(url)\<close> or
  \<^verbatim>\<open>api.post(url, data)\<close>.\<close>

datatype request = Get string | Post string jsobject

definition roadmapAPI_generate :: "jsobject \<Rightarrow> request" where
  "roadmapAPI_generate data = Post ''/roadmap/generate'' data"

definition roadmapAPI_getActive :: "string \<Rightarrow> request" where
  "roadmapAPI_getActive studentId = Get (''/roadmap/student/'' @ studentId @ ''/active'')"

definition roadmapAPI_getTodaysTasks :: "string \<Rightarrow> request" where
  "roadmapAPI_getTodaysTasks roadmapId = Get (''/roadmap/'' @ roadmapId @ ''/today'')"

definition roadmapAPI_updateProgress :: "string \<Rightarrow> string \<Rightarrow> request" where
  "roadmapAPI_updateProgress roadmapId taskId =
     Post (''/roadmap/'' @ roadmapId @ ''/progress'') [(''task_id'', JString taskId)]"

text \<open>
  The server is a parameter: for each request, either the promise rejects (\<open>Inl\<close>) or it
  resolves with \<^verbatim>\<open>response.data\<close> (\<open>Inr\<close>). \<open>None\<close> is a falsy body for the roadmap
  requests and an absent \<^verbatim>\<open>tasks\<close> field for today's tasks. Every handler wraps its
  request in \<^verbatim>\<open>try\<close>/\<^verbatim>\<open>catch\<close>, so anything thrown while the reply is read takes the
  branch of a rejected promise. Writes to the console are left out.
\<close>

datatype error = Rejected

record backend =
  reply_active :: "request \<Rightarrow> error + Roadmap option"
  reply_today :: "request \<Rightarrow> error + Task list option"
  reply_generate :: "request \<Rightarrow> error + Roadmap option"
  reply_progress :: "request \<Rightarrow> error + unit"

datatype toast = ToastSuccess string | ToastError string

text \<open>What a handler did: the requests it sent, the toasts it showed, the state it left.\<close>

record outcome =
  sent :: "request list"
  toasts :: "toast list"
  after :: page_state

section \<open>The handlers of \<^verbatim>\<open>RoadmapPage\<close>\<close>

definition current_student :: "page_state \<Rightarrow> string" where
  "current_student s = str_or (map_option User.student_id (user s)) ''demo_user''"

definition loadRoadmap :: "backend \<Rightarrow> page_state \<Rightarrow> outcome" where
  "loadRoadmap b s =
     (let s1 = s\<lparr>isLoading := True\<rparr>;
          req1 = roadmapAPI_getActive (current_student s)
      in case reply_active b req1 of
           Inl e \<Rightarrow> \<lparr>sent = [req1], toasts = [], after = s1\<lparr>isLoading := False\<rparr>\<rparr>
         | Inr None \<Rightarrow> \<lparr>sent = [req1], toasts = [], after = s1\<lparr>isLoading := False\<rparr>\<rparr>
         | Inr (Some r) \<Rightarrow>
             (let s2 = s1\<lparr>roadmap := Some r, currentWeek := num_or (current_week r) 1\<rparr>;
                  req2 = roadmapAPI_getTodaysTasks (roadmap_id r)
              in case reply_today b req2 of
                   Inl e \<Rightarrow>
                     \<lparr>sent = [req1, req2], toasts = [], after = s2\<lparr>isLoading := False\<rparr>\<rparr>
                 | Inr ts \<Rightarrow>
                     \<lparr>sent = [req1, req2], toasts = [],
                      after = s2\<lparr>todaysTasks := (case ts of None \<Rightarrow> [] | Some l \<Rightarrow> l),
                                 isLoading := False\<rparr>\<rparr>))"

definition generate_payload :: "page_state \<Rightarrow> jsobject" where
  "generate_payload s =
     [(''student_id'', JString (current_student s)),
      (''duration_weeks'', JNumber (GenerationParams.duration_weeks (generationParams s))),
      (''daily_commitment'', JString (daily_commitment (generationParams s))),
      (''company_id'',
         if GenerationParams.target_company (generationParams s) = [] then JUndefined
         else JString (GenerationParams.target_company (generationParams s)))]"

definition generateRoadmap :: "backend \<Rightarrow> page_state \<Rightarrow> outcome" where
  "generateRoadmap b s =
     (let s1 = s\<lparr>isGenerating := True\<rparr>;
          req = roadmapAPI_generate (generate_payload s)
      in case reply_generate b req of
           Inr data \<Rightarrow>
             \<lparr>sent = [req], toasts = [ToastSuccess ''Roadmap generated successfully!''],
              after = s1\<lparr>roadmap := data, currentWeek := 1, isGenerating := False\<rparr>\<rparr>
         | Inl e \<Rightarrow>
             \<lparr>sent = [req], toasts = [ToastError ''Failed to generate roadmap''],
              after = s1\<lparr>isGenerating := False\<rparr>\<rparr>)"

text \<open>The updater passed to \<^verbatim>\<open>setTodaysTasks\<close> by \<^verbatim>\<open>completeTask\<close>.\<close>

definition mark_completed :: "string \<Rightarrow> Task list \<Rightarrow> Task list" where
  "mark_completed taskId prev =
     map (\<lambda>task. if task_id task = taskId then task\<lparr>completed := True\<rparr> else task) prev"

definition completeTask :: "backend \<Rightarrow> string \<Rightarrow> page_state \<Rightarrow> outcome" where
  "completeTask b taskId s =
     (case roadmap s of
        None \<Rightarrow> \<lparr>sent = [], toasts = [], after = s\<rparr>
      | Some r \<Rightarrow>
          (let req = roadmapAPI_updateProgress (roadmap_id r) taskId
           in case reply_progress b req of
                Inr ok \<Rightarrow>
                  \<lparr>sent = [req], toasts = [ToastSuccess ''Task completed!''],
                   after = s\<lparr>todaysTasks := mark_completed taskId (todaysTasks s)\<rparr>\<rparr>
              | Inl e \<Rightarrow>
                  \<lparr>sent = [req], toasts = [ToastError ''Failed to update progress''],
                   after = s\<rparr>))"

text \<open>The check button of a task: \<^verbatim>\<open>!task.completed && completeTask(task.task_id)\<close>.\<close>

definition onTaskClick :: "backend \<Rightarrow> Task \<Rightarrow> page_state \<Rightarrow> outcome" where
  "onTaskClick b task s =
     (if completed task then \<lparr>sent = [], toasts = [], after = s\<rparr>
      else completeTask b (task_id task) s)"

text \<open>The two week buttons; \<open>r\<close> is the roadmap of the render that shows them.\<close>

definition previousWeek :: "page_state \<Rightarrow> page_state" where
  "previousWeek s = s\<lparr>currentWeek := max 1 (currentWeek s - 1)\<rparr>"

definition nextWeek :: "Roadmap \<Rightarrow> page_state \<Rightarrow> page_state" where
  "nextWeek r s = s\<lparr>currentWeek := min (Roadmap.duration_weeks r) (currentWeek s + 1)\<rparr>"

text \<open>The percentage rendered as overall progress: \<^verbatim>\<open>roadmap.progress || 0\<close>.\<close>

definition shown_progress :: "Roadmap \<Rightarrow> int" where
  "shown_progress r = num_or (progress r) 0"

section \<open>The page as a transition system\<close>

text \<open>
  The component returns one of three views, and only the controls of the view on screen can
  fire. Each handler runs as one step, the awaited reply being supplied by the backend of
  that step. \<^verbatim>\<open>useEffect(..., [])\<close> runs \<^verbatim>\<open>loadRoadmap\<close> once, after the first render,
  which is the only time \<^verbatim>\<open>isLoading\<close> holds.
\<close>

datatype view = Spinner | GenerationForm | RoadmapView Roadmap

definition render :: "page_state \<Rightarrow> view" where
  "render s =
     (if isLoading s then Spinner
      else case roadmap s of None \<Rightarrow> GenerationForm | Some r \<Rightarrow> RoadmapView r)"

text \<open>The \<^verbatim>\<open>value\<close> attributes of the \<^verbatim>\<open><option>\<close> elements of the two selectors.\<close>

definition duration_options :: "string list" where
  "duration_options = [''4'', ''8'', ''12'', ''16'']"

definition commitment_options :: "string list" where
  "commitment_options = [''1 hour'', ''2 hours'', ''3 hours'', ''4 hours'']"

datatype event =
    MountEffect
  | ChangeDuration string
  | ChangeCommitment string
  | ChangeCompany string
  | ChangeRole string
  | ClickGenerate
  | ClickTask nat
  | ClickPrevious
  | ClickNext

definition set_params :: "(GenerationParams \<Rightarrow> GenerationParams) \<Rightarrow> page_state \<Rightarrow> page_state" where
  "set_params f s = s\<lparr>generationParams := f (generationParams s)\<rparr>"

fun on_form :: "backend \<Rightarrow> event \<Rightarrow> page_state \<Rightarrow> page_state option" where
  "on_form b (ChangeDuration v) s =
     (if v \<in> set duration_options
      then Some (set_params (\<lambda>prev. prev\<lparr>GenerationParams.duration_weeks := parseInt v\<rparr>) s)
      else None)"
| "on_form b (ChangeCommitment v) s =
     (if v \<in> set commitment_options
      then Some (set_params (\<lambda>prev. prev\<lparr>daily_commitment := v\<rparr>) s)
      else None)"
| "on_form b (ChangeCompany v) s =
     Some (set_params (\<lambda>prev. prev\<lparr>GenerationParams.target_company := v\<rparr>) s)"
| "on_form b (ChangeRole v) s =
     Some (set_params (\<lambda>prev. prev\<lparr>GenerationParams.target_role := v\<rparr>) s)"
| "on_form b ClickGenerate s =
     (if isGenerating s then None else Some (after (generateRoadmap b s)))"
| "on_form b e s = None"

fun on_roadmap :: "backend \<Rightarrow> Roadmap \<Rightarrow> event \<Rightarrow> page_state \<Rightarrow> page_state option" where
  "on_roadmap b r (ClickTask i) s =
     (if i < length (todaysTasks s)
      then Some (after (onTaskClick b (todaysTasks s ! i) s)) else None)"
| "on_roadmap b r ClickPrevious s =
     (if currentWeek s = 1 then None else Some (previousWeek s))"
| "on_roadmap b r ClickNext s =
     (if currentWeek s = Roadmap.duration_weeks r then None else Some (nextWeek r s))"
| "on_roadmap b r e s = None"

definition handle :: "backend \<Rightarrow> event \<Rightarrow> page_state \<Rightarrow> page_state option" where
  "handle b e s =
     (case render s of
        Spinner \<Rightarrow> (if e = MountEffect then Some (after (loadRoadmap b s)) else None)
      | GenerationForm \<Rightarrow> on_form b e s
      | RoadmapView r \<Rightarrow> on_roadmap b r e s)"

inductive reachable :: "page_state \<Rightarrow> bool" where
  start: "reachable (initial_state u)"
| step: "reachable s \<Longrightarrow> handle b e s = Some s' \<Longrightarrow> reachable s'"



text \<open>The number of tasks of a roadmap, over all its weeks and days.\<close>

definition total_tasks :: "Roadmap \<Rightarrow> nat" where
  "total_tasks r = sum_list (map (\<lambda>w. sum_list (map (\<lambda>d. length (tasks d)) (days w))) (weeks r))"

text \<open>The data of a request: \<^verbatim>\<open>api.get\<close> carries none.\<close>

definition request_body :: "request \<Rightarrow> jsobject" where
  "request_body q = (case q of Get url \<Rightarrow> [] | Post url data \<Rightarrow> data)"

section \<open>Sample data\<close>

text \<open>
  A task, a roadmap without weeks, a server that answers every request the same way, and
  the page after its first load from a server holding a roadmap of 4 weeks at week 2.
\<close>

definition demo_task :: "string \<Rightarrow> bool \<Rightarrow> Task" where
  "demo_task tid done =
     \<lparr>task_id = tid, title = ''Joins'', description = ''Practise SQL joins'',
      resource_type = ''practice'', resource_url = None, duration_minutes = 45,
      completed = done\<rparr>"

definition demo_roadmap :: "int \<Rightarrow> int option \<Rightarrow> int option \<Rightarrow> Roadmap" where
  "demo_roadmap n cw p =
     \<lparr>roadmap_id = ''r1'', Roadmap.student_id = ''demo_user'',
      Roadmap.target_company = None, Roadmap.target_role = None,
      Roadmap.duration_weeks = n, current_week = cw, progress = p, weeks = [],
      created_at = ''2024-01-01''\<rparr>"

definition demo_backend :: "Roadmap option \<Rightarrow> bool \<Rightarrow> backend" where
  "demo_backend r ok =
     \<lparr>reply_active = (\<lambda>q. Inr r),
      reply_today = (\<lambda>q. Inr (Some [demo_task ''t1'' False, demo_task ''t2'' True])),
      reply_generate = (\<lambda>q. if ok then Inr r else Inl Rejected),
      reply_progress = (\<lambda>q. if ok then Inr () else Inl Rejected)\<rparr>"

definition loaded_state :: page_state where
  "loaded_state =
     after (loadRoadmap (demo_backend (Some (demo_roadmap 4 (Some 2) (Some 50))) True)
              (initial_state None))"






section \<open>Properties of the handlers\<close>

lemma mark_completed_length: "length (mark_completed tid ts) = length ts"
  by (simp add: mark_completed_def)

lemma mark_completed_nth:
  "i < length ts \<Longrightarrow>
   mark_completed tid ts ! i =
     (if task_id (ts ! i) = tid then (ts ! i)\<lparr>completed := True\<rparr> else ts ! i)"
  by (simp add: mark_completed_def)

lemma mark_completed_twice:
  "mark_completed tid (mark_completed tid ts) = mark_completed tid ts"
  by (induction ts) (simp_all add: mark_completed_def)

lemma loadRoadmap_not_loading: "\<not> isLoading (after (loadRoadmap b s))"
  by (simp add: loadRoadmap_def Let_def split: sum.splits option.splits)

lemma completeTask_frame:
  "(after (completeTask b tid s))\<lparr>todaysTasks := todaysTasks s\<rparr> = s"
  by (simp add: completeTask_def Let_def split: sum.splits option.splits)

lemma completeTask_tasks:
  "todaysTasks (after (completeTask b tid s)) = todaysTasks s \<or>
   todaysTasks (after (completeTask b tid s)) = mark_completed tid (todaysTasks s)"
  by (simp add: completeTask_def Let_def split: sum.splits option.splits)

lemma onTaskClick_frame:
  "(after (onTaskClick b t s))\<lparr>todaysTasks := todaysTasks s\<rparr> = s"
  using completeTask_frame [where b = b and tid = "task_id t" and s = s] by (simp add: onTaskClick_def)

lemma onTaskClick_tasks:
  "todaysTasks (after (onTaskClick b t s)) = todaysTasks s \<or>
   todaysTasks (after (onTaskClick b t s)) = mark_completed (task_id t) (todaysTasks s)"
  using completeTask_tasks [where b = b and tid = "task_id t" and s = s] by (simp add: onTaskClick_def)

lemma frame_fields:
  assumes "s'\<lparr>todaysTasks := ts\<rparr> = s"
  shows "roadmap s' = roadmap s" and "currentWeek s' = currentWeek s"
    and "isLoading s' = isLoading s" and "generationParams s' = generationParams s"
    and "user s' = user s" and "isGenerating s' = isGenerating s"
proof -
  have "roadmap (s'\<lparr>todaysTasks := ts\<rparr>) = roadmap s" using assms by simp
  then show "roadmap s' = roadmap s" by simp
  have "currentWeek (s'\<lparr>todaysTasks := ts\<rparr>) = currentWeek s" using assms by simp
  then show "currentWeek s' = currentWeek s" by simp
  have "isLoading (s'\<lparr>todaysTasks := ts\<rparr>) = isLoading s" using assms by simp
  then show "isLoading s' = isLoading s" by simp
  have "generationParams (s'\<lparr>todaysTasks := ts\<rparr>) = generationParams s" using assms by simp
  then show "generationParams s' = generationParams s" by simp
  have "user (s'\<lparr>todaysTasks := ts\<rparr>) = user s" using assms by simp
  then show "user s' = user s" by simp
  have "isGenerating (s'\<lparr>todaysTasks := ts\<rparr>) = isGenerating s" using assms by simp
  then show "isGenerating s' = isGenerating s" by simp
qed

lemma on_form_loading: "on_form b e s = Some s' \<Longrightarrow> isLoading s' = isLoading s"
  by (cases e) (auto simp: set_params_def generateRoadmap_def Let_def
      split: if_splits sum.splits)

lemma on_form_tasks: "on_form b e s = Some s' \<Longrightarrow> todaysTasks s' = todaysTasks s"
  by (cases e) (auto simp: set_params_def generateRoadmap_def Let_def
      split: if_splits sum.splits)

lemma on_roadmap_frame:
  "on_roadmap b r e s = Some s' \<Longrightarrow>
   roadmap s' = roadmap s \<and> isLoading s' = isLoading s \<and>
   generationParams s' = generationParams s"
  by (cases e)
     (auto simp: previousWeek_def nextWeek_def frame_fields [OF onTaskClick_frame]
       split: if_splits)

lemma on_roadmap_tasks:
  "on_roadmap b r e s = Some s' \<Longrightarrow>
   todaysTasks s' = todaysTasks s \<or>
   (\<exists>tid. todaysTasks s' = mark_completed tid (todaysTasks s))"
  using onTaskClick_tasks
  by (cases e) (auto simp: previousWeek_def nextWeek_def split: if_splits)

lemma handle_not_loading: "handle b e s = Some s' \<Longrightarrow> \<not> isLoading s'"
  by (auto simp: handle_def render_def loadRoadmap_not_loading on_form_loading
      on_roadmap_frame split: if_splits option.splits)

lemma reachable_loading:
  "reachable s \<Longrightarrow> isLoading s \<Longrightarrow> roadmap s = None \<and> todaysTasks s = []"
  by (induction rule: reachable.induct)
     (auto simp: initial_state_def dest: handle_not_loading)

lemma parseInt_duration_options:
  "map parseInt duration_options = [Num 4, Num 8, Num 12, Num 16]"
  by (simp add: duration_options_def parseInt_def is_ws_def parse_digits_def
      is_digit_in_def digit_val_def digits_value_def)

lemma parseInt_option:
  "v \<in> set duration_options \<Longrightarrow> parseInt v \<in> {Num 4, Num 8, Num 12, Num 16}"
proof -
  assume "v \<in> set duration_options"
  then have "parseInt v \<in> set (map parseInt duration_options)" by simp
  then show ?thesis unfolding parseInt_duration_options by auto
qed

lemma on_form_duration:
  "on_form b e s = Some s' \<Longrightarrow>
   GenerationParams.duration_weeks (generationParams s) \<in> {Num 4, Num 8, Num 12, Num 16} \<Longrightarrow>
   GenerationParams.duration_weeks (generationParams s') \<in> {Num 4, Num 8, Num 12, Num 16}"
  by (cases e)
     (auto simp: set_params_def generateRoadmap_def Let_def
       dest: parseInt_option split: if_splits sum.splits)

lemma loadRoadmap_params: "generationParams (after (loadRoadmap b s)) = generationParams s"
  by (simp add: loadRoadmap_def Let_def split: sum.splits option.splits)

lemma reachable_duration:
  "reachable s \<Longrightarrow>
   GenerationParams.duration_weeks (generationParams s) \<in> {Num 4, Num 8, Num 12, Num 16}"
proof (induction rule: reachable.induct)
  case (start u)
  show ?case by (simp add: initial_state_def initial_params_def)
next
  case (step s b e s')
  show ?case
  proof (cases "render s")
    case Spinner
    with step show ?thesis
      by (auto simp: handle_def loadRoadmap_params split: if_splits)
  next
    case GenerationForm
    with step show ?thesis
      using on_form_duration [of b e s s'] by (simp add: handle_def)
  next
    case (RoadmapView r)
    with step show ?thesis
      using on_roadmap_frame [of b r e s s'] by (simp add: handle_def)
  qed
qed

lemma generateRoadmap_sent:
  "sent (generateRoadmap b s) = [roadmapAPI_generate (generate_payload s)]"
  by (simp add: generateRoadmap_def Let_def split: sum.splits)

lemma generate_payload_duration:
  "map_of (generate_payload s) ''duration_weeks'' =
     Some (JNumber (GenerationParams.duration_weeks (generationParams s)))"
  by (simp add: generate_payload_def)

lemma loaded_state_eq:
  "loaded_state =
     \<lparr>user = None, roadmap = Some (demo_roadmap 4 (Some 2) (Some 50)), currentWeek = 2,
      todaysTasks = [demo_task ''t1'' False, demo_task ''t2'' True],
      isLoading = False, isGenerating = False, generationParams = initial_params\<rparr>"
  by (simp add: loaded_state_def loadRoadmap_def demo_backend_def initial_state_def
      num_or_def demo_roadmap_def)

lemma reachable_loaded_state: "reachable loaded_state"
proof -
  let ?b = "demo_backend (Some (demo_roadmap 4 (Some 2) (Some 50))) True"
  have "handle ?b MountEffect (initial_state None) = Some loaded_state"
    by (simp add: handle_def render_def initial_state_def loaded_state_def)
  with reachable.start [of None] show ?thesis by (rule reachable.step)
qed












section \<open>The claims\<close>

text \<open>
  C1. Recording a completion is idempotent. Marking the task with a given \<open>task_id\<close> a
  second time gives the list the first marking gave, and a further \<^verbatim>\<open>completeTask\<close> on a
  page whose list is already marked leaves the whole page state as it is, whatever the
  server answers.
\<close>
theorem completeTask_idempotent:
  "mark_completed tid (mark_completed tid ts) = mark_completed tid ts \<and>
   after (completeTask b tid (s\<lparr>todaysTasks := mark_completed tid ts\<rparr>)) =
     s\<lparr>todaysTasks := mark_completed tid ts\<rparr>"
  by (simp add: mark_completed_twice completeTask_def Let_def split: sum.splits option.splits)

theorem completeTask_idempotent_witness:
  "mark_completed ''t1'' (mark_completed ''t1'' [demo_task ''t1'' False, demo_task ''t2'' False]) =
     [demo_task ''t1'' True, demo_task ''t2'' False]"
  using completeTask_idempotent [of "''t1''" "[demo_task ''t1'' False, demo_task ''t2'' False]"]
  by (simp add: mark_completed_def demo_task_def)



text \<open>
  C3. Completion is one-way. In every step the page can take from a reachable state, a
  task of today's list that was completed is still there, with the same \<open>task_id\<close>, and
  still completed, and a loaded roadmap object stays the same object. The check button of
  a completed task sends nothing and changes nothing, and the updater of
  \<^verbatim>\<open>completeTask\<close> never clears a flag.
\<close>
theorem completion_one_way:
  "reachable s \<Longrightarrow> handle b e s = Some s' \<Longrightarrow>
     (\<forall>i<length (todaysTasks s). completed (todaysTasks s ! i) \<longrightarrow>
        i < length (todaysTasks s') \<and>
        task_id (todaysTasks s' ! i) = task_id (todaysTasks s ! i) \<and>
        completed (todaysTasks s' ! i)) \<and>
     (\<forall>r. roadmap s = Some r \<longrightarrow> roadmap s' = Some r) \<and>
     (\<forall>t. completed t \<longrightarrow> onTaskClick b t s = \<lparr>sent = [], toasts = [], after = s\<rparr>) \<and>
     (\<forall>tid ts i. i < length ts \<longrightarrow> completed (ts ! i) \<longrightarrow>
        completed (mark_completed tid ts ! i))"
proof (intro conjI)
  assume reach: "reachable s" and hd: "handle b e s = Some s'"
  show "\<forall>t. completed t \<longrightarrow> onTaskClick b t s = \<lparr>sent = [], toasts = [], after = s\<rparr>"
    by (simp add: onTaskClick_def)
  show "\<forall>tid ts i. i < length ts \<longrightarrow> completed (ts ! i) \<longrightarrow>
          completed (mark_completed tid ts ! i)"
    by (simp add: mark_completed_nth)
  show "\<forall>r. roadmap s = Some r \<longrightarrow> roadmap s' = Some r"
  proof (cases "render s")
    case Spinner
    then have "isLoading s" by (simp add: render_def split: if_splits option.splits)
    with reach show ?thesis by (simp add: reachable_loading)
  next
    case GenerationForm
    then show ?thesis by (simp add: render_def split: if_splits option.splits)
  next
    case (RoadmapView r)
    with hd show ?thesis using on_roadmap_frame [of b r e s s'] by (simp add: handle_def)
  qed
  show "\<forall>i<length (todaysTasks s). completed (todaysTasks s ! i) \<longrightarrow>
          i < length (todaysTasks s') \<and>
          task_id (todaysTasks s' ! i) = task_id (todaysTasks s ! i) \<and>
          completed (todaysTasks s' ! i)"
  proof (cases "render s")
    case Spinner
    then have "isLoading s" by (simp add: render_def split: if_splits option.splits)
    with reach show ?thesis by (simp add: reachable_loading)
  next
    case GenerationForm
    with hd show ?thesis using on_form_tasks [of b e s s'] by (simp add: handle_def)
  next
    case (RoadmapView r)
    with hd have "on_roadmap b r e s = Some s'" by (simp add: handle_def)
    from on_roadmap_tasks [OF this] show ?thesis
      by (auto simp: mark_completed_length mark_completed_nth)
  qed
qed

theorem completion_one_way_witness:
  "reachable loaded_state \<and>
   handle (demo_backend None True) (ClickTask 0) loaded_state =
     Some (loaded_state\<lparr>todaysTasks := [demo_task ''t1'' True, demo_task ''t2'' True]\<rparr>) \<and>
   completed (todaysTasks loaded_state ! 1) \<and>
   completed
     (todaysTasks (loaded_state\<lparr>todaysTasks := [demo_task ''t1'' True, demo_task ''t2'' True]\<rparr>) ! 1)"
proof -
  let ?s' = "loaded_state\<lparr>todaysTasks := [demo_task ''t1'' True, demo_task ''t2'' True]\<rparr>"
  have h: "handle (demo_backend None True) (ClickTask 0) loaded_state = Some ?s'"
    by (simp add: handle_def render_def loaded_state_eq onTaskClick_def completeTask_def
        mark_completed_def demo_task_def demo_backend_def)
  have c: "completed (todaysTasks loaded_state ! 1)" "1 < length (todaysTasks loaded_state)"
    by (simp_all add: loaded_state_eq demo_task_def)
  from completion_one_way [OF reachable_loaded_state h] c
  have "completed (todaysTasks ?s' ! 1)" by blast
  with reachable_loaded_state h c show ?thesis by blast
qed

text \<open>
  C4. The frame of \<^verbatim>\<open>completeTask\<close>. The updater keeps the length and the order of the
  list, leaves every task with another \<open>task_id\<close> as it is, and changes nothing but
  \<open>completed\<close> in a task it marks: putting the old flag back gives the old task.
  \<^verbatim>\<open>completeTask\<close> changes no component of the page state other than today's list; the
  roadmap object, its \<open>progress\<close> and \<open>current_week\<close> included, and the displayed week
  are as before.
\<close>
theorem completeTask_changes_only_completed:
  "length (mark_completed tid ts) = length ts \<and>
   (\<forall>i<length ts.
      (task_id (ts ! i) \<noteq> tid \<longrightarrow> mark_completed tid ts ! i = ts ! i) \<and>
      (task_id (ts ! i) = tid \<longrightarrow> mark_completed tid ts ! i = (ts ! i)\<lparr>completed := True\<rparr>) \<and>
      (mark_completed tid ts ! i)\<lparr>completed := completed (ts ! i)\<rparr> = ts ! i) \<and>
   (after (completeTask b tid s))\<lparr>todaysTasks := todaysTasks s\<rparr> = s \<and>
   roadmap (after (completeTask b tid s)) = roadmap s \<and>
   currentWeek (after (completeTask b tid s)) = currentWeek s \<and>
   (todaysTasks (after (completeTask b tid s)) = todaysTasks s \<or>
    todaysTasks (after (completeTask b tid s)) = mark_completed tid (todaysTasks s))"
  using completeTask_tasks [of b tid s]
  by (simp add: mark_completed_length mark_completed_nth completeTask_frame
      frame_fields [OF completeTask_frame])

theorem completeTask_changes_only_completed_witness:
  "mark_completed ''t1'' (todaysTasks loaded_state) ! 0 = demo_task ''t1'' True \<and>
   mark_completed ''t1'' (todaysTasks loaded_state) ! 1 = demo_task ''t2'' True \<and>
   roadmap (after (completeTask (demo_backend None True) ''t1'' loaded_state)) =
     Some (demo_roadmap 4 (Some 2) (Some 50))"
  using completeTask_changes_only_completed
    [where tid = "''t1''" and ts = "todaysTasks loaded_state"
       and b = "demo_backend None True" and s = loaded_state]
  by (simp add: loaded_state_eq demo_task_def)

text \<open>
  C5. The duration of a generation request. In every reachable state the form holds 4, 8,
  12 or 16 weeks: it starts at 12, and the selector's four options parse to 4, 8, 12 and
  16. \<^verbatim>\<open>generateRoadmap\<close> sends one POST to \<^verbatim>\<open>/roadmap/generate\<close> whose
  \<^verbatim>\<open>duration_weeks\<close> is the value held by the form.
\<close>
theorem generation_duration_enumerated:
  "reachable s \<Longrightarrow>
     GenerationParams.duration_weeks (generationParams s) \<in> {Num 4, Num 8, Num 12, Num 16} \<and>
     sent (generateRoadmap b s) = [Post ''/roadmap/generate'' (generate_payload s)] \<and>
     map_of (generate_payload s) ''duration_weeks'' =
       Some (JNumber (GenerationParams.duration_weeks (generationParams s))) \<and>
     GenerationParams.duration_weeks (generationParams (initial_state u)) = Num 12 \<and>
     map parseInt duration_options = [Num 4, Num 8, Num 12, Num 16]"
  using reachable_duration [of s]
  by (simp add: parseInt_duration_options generateRoadmap_sent roadmapAPI_generate_def
      generate_payload_duration initial_state_def initial_params_def)

theorem generation_duration_enumerated_witness:
  "reachable loaded_state \<and>
   sent (generateRoadmap (demo_backend None True) loaded_state) =
     [Post ''/roadmap/generate''
        [(''student_id'', JString ''demo_user''), (''duration_weeks'', JNumber (Num 12)),
         (''daily_commitment'', JString ''2 hours''), (''company_id'', JUndefined)]]"
  using generation_duration_enumerated
    [OF reachable_loaded_state, where b = "demo_backend None True" and u = None]
    reachable_loaded_state
  by (simp add: loaded_state_eq generate_payload_def initial_params_def current_student_def
      str_or_def)

text \<open>
  C6. Progress of a roadmap without tasks. The page does not derive the percentage from the
  tasks. A roadmap with no task at all whose \<open>progress\<close> is absent, or is 0, is shown as
  0 percent, not as 100 percent.
\<close>
theorem zero_task_progress_counterexample:
  "total_tasks (demo_roadmap 4 (Some 1) None) = 0 \<and>
   progress (demo_roadmap 4 (Some 1) None) = None \<and>
   shown_progress (demo_roadmap 4 (Some 1) None) \<noteq> 100 \<and>
   total_tasks (demo_roadmap 4 (Some 1) (Some 0)) = 0 \<and>
   shown_progress (demo_roadmap 4 (Some 1) (Some 0)) \<noteq> 100"
  by (simp add: total_tasks_def shown_progress_def num_or_def demo_roadmap_def)

text \<open>
  C6, as the page implements it. The percentage shown is the \<open>progress\<close> field as
  received, and 0 when the field is absent; the weeks and their tasks have no influence on
  it. The page shows 100 percent exactly when the server sent 100.
\<close>
theorem shown_progress_is_received_value:
  "shown_progress r = (case progress r of None \<Rightarrow> 0 | Some p \<Rightarrow> p) \<and>
   shown_progress (r\<lparr>weeks := ws\<rparr>) = shown_progress r \<and>
   (shown_progress r = 100 \<longleftrightarrow> progress r = Some 100)"
  by (auto simp: shown_progress_def num_or_def split: option.splits)

theorem shown_progress_is_received_value_witness:
  "shown_progress (demo_roadmap 4 (Some 1) None) = 0 \<and>
   shown_progress (demo_roadmap 4 (Some 1) (Some 100)) = 100"
  using shown_progress_is_received_value [of "demo_roadmap 4 (Some 1) None"]
    shown_progress_is_received_value [of "demo_roadmap 4 (Some 1) (Some 100)"]
  by (simp add: demo_roadmap_def)

text \<open>
  C7. When the generation request resolves, \<^verbatim>\<open>generateRoadmap\<close> sets the displayed week
  to 1 and stores the body of the response as the roadmap, whatever week was displayed
  before and whatever \<^verbatim>\<open>current_week\<close> the response carries.
\<close>
theorem generate_resets_week:
  "reply_generate b (roadmapAPI_generate (generate_payload s)) = Inr data \<Longrightarrow>
     currentWeek (after (generateRoadmap b s)) = 1 \<and>
     roadmap (after (generateRoadmap b s)) = data"
  by (simp add: generateRoadmap_def)

theorem generate_resets_week_witness:
  "currentWeek (loaded_state\<lparr>roadmap := None, currentWeek := 3\<rparr>) = 3 \<and>
   currentWeek
     (after (generateRoadmap (demo_backend (Some (demo_roadmap 8 (Some 4) (Some 0))) True)
        (loaded_state\<lparr>roadmap := None, currentWeek := 3\<rparr>))) = 1"
proof -
  let ?b = "demo_backend (Some (demo_roadmap 8 (Some 4) (Some 0))) True"
  let ?s = "loaded_state\<lparr>roadmap := None, currentWeek := 3\<rparr>"
  have "reply_generate ?b (roadmapAPI_generate (generate_payload ?s)) =
          Inr (Some (demo_roadmap 8 (Some 4) (Some 0)))"
    by (simp add: demo_backend_def)
  from generate_resets_week [OF this] show ?thesis by simp
qed

text \<open>
  C8. The body of the completion request is the object with the single key
  \<^verbatim>\<open>task_id\<close>, bound to the task id given; it has no \<^verbatim>\<open>timestamp\<close>. Every request
  that \<^verbatim>\<open>completeTask\<close> sends has this body.
\<close>
theorem updateProgress_body_is_task_id:
  "request_body (roadmapAPI_updateProgress roadmapId taskId) = [(''task_id'', JString taskId)] \<and>
   map_of (request_body (roadmapAPI_updateProgress roadmapId taskId)) ''timestamp'' = None \<and>
   (\<forall>q \<in> set (sent (completeTask b taskId s)).
      request_body q = [(''task_id'', JString taskId)])"
  by (auto simp: request_body_def roadmapAPI_updateProgress_def completeTask_def Let_def
      split: sum.splits option.splits)

theorem updateProgress_body_is_task_id_witness:
  "sent (completeTask (demo_backend None True) ''t1'' loaded_state) =
     [Post ''/roadmap/r1/progress'' [(''task_id'', JString ''t1'')]] \<and>
   request_body (Post ''/roadmap/r1/progress'' [(''task_id'', JString ''t1'')]) =
     [(''task_id'', JString ''t1'')]"
proof -
  have s: "sent (completeTask (demo_backend None True) ''t1'' loaded_state) =
     [Post ''/roadmap/r1/progress'' [(''task_id'', JString ''t1'')]]"
    by (simp add: completeTask_def loaded_state_eq demo_backend_def demo_roadmap_def
        roadmapAPI_updateProgress_def)
  from updateProgress_body_is_task_id
    [where roadmapId = "''r1''" and taskId = "''t1''" and b = "demo_backend None True"
       and s = loaded_state]
  show ?thesis unfolding s by simp
qed

text \<open>
  C9. The target role is not sent. Two page states that differ only in the form's
  \<^verbatim>\<open>target_role\<close> make \<^verbatim>\<open>generateRoadmap\<close> send the same requests. The payload has
  the keys \<^verbatim>\<open>student_id\<close>, \<^verbatim>\<open>duration_weeks\<close>, \<^verbatim>\<open>daily_commitment\<close> and
  \<^verbatim>\<open>company_id\<close>, in this order, and no key \<^verbatim>\<open>target_role\<close>.
\<close>
theorem target_role_not_sent:
  "sent (generateRoadmap b
      (s\<lparr>generationParams := (generationParams s)\<lparr>GenerationParams.target_role := x\<rparr>\<rparr>)) =
     sent (generateRoadmap b s) \<and>
   map fst (generate_payload s) =
     [''student_id'', ''duration_weeks'', ''daily_commitment'', ''company_id''] \<and>
   map_of (generate_payload s) ''target_role'' = None"
  by (simp add: generateRoadmap_sent generate_payload_def current_student_def)

theorem target_role_not_sent_witness:
  "sent (generateRoadmap (demo_backend None True)
      (loaded_state\<lparr>generationParams :=
         (generationParams loaded_state)\<lparr>GenerationParams.target_role := ''Data Scientist''\<rparr>\<rparr>)) =
     [Post ''/roadmap/generate''
        [(''student_id'', JString ''demo_user''), (''duration_weeks'', JNumber (Num 12)),
         (''daily_commitment'', JString ''2 hours''), (''company_id'', JUndefined)]]"
proof -
  have "sent (generateRoadmap (demo_backend None True) loaded_state) =
     [Post ''/roadmap/generate''
        [(''student_id'', JString ''demo_user''), (''duration_weeks'', JNumber (Num 12)),
         (''daily_commitment'', JString ''2 hours''), (''company_id'', JUndefined)]]"
    by (simp add: generateRoadmap_sent generate_payload_def current_student_def str_or_def
        loaded_state_eq initial_params_def roadmapAPI_generate_def)
  with target_role_not_sent
    [where b = "demo_backend None True" and s = loaded_state and x = "''Data Scientist''"]
  show ?thesis by simp
qed

text \<open>
  C10. A failed completion leaves the page as it was. With no roadmap loaded,
  \<^verbatim>\<open>completeTask\<close> sends nothing and changes nothing. With a roadmap loaded and the
  request rejected, the one request has been sent and the page state is unchanged. Today's
  list changes only if a roadmap is loaded and the request resolved.
\<close>
theorem completeTask_failure_leaves_tasks:
  "(roadmap s = None \<longrightarrow>
      sent (completeTask b tid s) = [] \<and> after (completeTask b tid s) = s) \<and>
   (\<forall>r e. roadmap s = Some r \<longrightarrow>
      reply_progress b (roadmapAPI_updateProgress (roadmap_id r) tid) = Inl e \<longrightarrow>
      sent (completeTask b tid s) = [roadmapAPI_updateProgress (roadmap_id r) tid] \<and>
      after (completeTask b tid s) = s) \<and>
   (todaysTasks (after (completeTask b tid s)) \<noteq> todaysTasks s \<longrightarrow>
      (\<exists>r. roadmap s = Some r \<and>
           reply_progress b (roadmapAPI_updateProgress (roadmap_id r) tid) = Inr ()))"
  by (auto simp: completeTask_def Let_def split: sum.splits option.splits)

theorem completeTask_failure_leaves_tasks_witness:
  "roadmap loaded_state = Some (demo_roadmap 4 (Some 2) (Some 50)) \<and>
   reply_progress (demo_backend None False)
     (roadmapAPI_updateProgress (roadmap_id (demo_roadmap 4 (Some 2) (Some 50))) ''t1'') =
     Inl Rejected \<and>
   after (completeTask (demo_backend None False) ''t1'' loaded_state) = loaded_state \<and>
   roadmap (initial_state None) = None \<and>
   sent (completeTask (demo_backend None True) ''t1'' (initial_state None)) = []"
proof -
  have r: "roadmap loaded_state = Some (demo_roadmap 4 (Some 2) (Some 50))"
    by (simp add: loaded_state_eq)
  have f: "reply_progress (demo_backend None False)
     (roadmapAPI_updateProgress (roadmap_id (demo_roadmap 4 (Some 2) (Some 50))) ''t1'') =
     Inl Rejected"
    by (simp add: demo_backend_def)
  have n: "roadmap (initial_state None) = None" by (simp add: initial_state_def)
  from completeTask_failure_leaves_tasks
      [where s = loaded_state and b = "demo_backend None False" and tid = "''t1''"]
    completeTask_failure_leaves_tasks
      [where s = "initial_state None" and b = "demo_backend None True" and tid = "''t1''"]
    r f n
  show ?thesis by blast
qed

end
